theory Spec2Isabelle
  imports Main
begin

unbundle bit_operations_syntax

section \<open>Python values, exceptions and list primitives\<close>

text \<open>
  The constants of a code object. Only the kinds of constants that the examples below
  use are represented; the host operators are a parameter of the optimizer (see
  \<open>host\<close>), so no theorem depends on how many kinds of values there are.
  \<open>VQuotient a b\<close> stands for the float that \<open>a / b\<close> gives for two ints.
\<close>

datatype pyval =
    VNone
  | VInt int
  | VStr string
  | VTuple "pyval list"
  | VFrozenset "pyval list"
  | VQuotient int int

datatype exn =
    IndexError
  | TypeError
  | ZeroDivisionError
  | ValueError
  | KeyError
  | AssertionError

text \<open>Python's \<open>len(value)\<close>: a TypeError for a value without a length.\<close>

fun py_len :: "pyval \<Rightarrow> exn + nat" where
  "py_len (VStr s) = Inr (length s)"
| "py_len (VTuple xs) = Inr (length xs)"
| "py_len (VFrozenset xs) = Inr (length xs)"
| "py_len VNone = Inl TypeError"
| "py_len (VInt i) = Inl TypeError"
| "py_len (VQuotient a b) = Inl TypeError"

text \<open>
  A slice bound \<open>i\<close> of a list of length \<open>n\<close>, as Python clamps it: a negative bound
  counts from the end, and every bound is clipped to \<open>0..n\<close>.
\<close>

definition slice_bound :: "nat \<Rightarrow> int \<Rightarrow> nat" where
  "slice_bound n i = (if i < 0 then nat (max 0 (int n + i)) else min (nat i) n)"

text \<open>\<open>xs[lo:hi] = ys\<close>. When the clamped upper bound lies below the lower one, Python
  inserts at the lower bound.\<close>

definition slice_assign :: "'a list \<Rightarrow> int \<Rightarrow> int \<Rightarrow> 'a list \<Rightarrow> 'a list" where
  "slice_assign xs lo hi ys =
     (let a = slice_bound (length xs) lo;
          b = max a (slice_bound (length xs) hi)
      in take a xs @ ys @ drop b xs)"

text \<open>\<open>del xs[lo:hi]\<close>.\<close>

definition slice_del :: "'a list \<Rightarrow> int \<Rightarrow> int \<Rightarrow> 'a list" where
  "slice_del xs lo hi = slice_assign xs lo hi []"

text \<open>\<open>xs[lo:]\<close> and \<open>del xs[lo:]\<close>.\<close>

definition slice_from :: "'a list \<Rightarrow> int \<Rightarrow> 'a list" where
  "slice_from xs lo = drop (slice_bound (length xs) lo) xs"

definition del_from :: "'a list \<Rightarrow> int \<Rightarrow> 'a list" where
  "del_from xs lo = take (slice_bound (length xs) lo) xs"

text \<open>\<open>xs[i]\<close>, \<open>xs[i] = v\<close> and \<open>del xs[i]\<close>: a negative index counts from the end, an
  index out of range raises IndexError.\<close>

definition py_index :: "nat \<Rightarrow> int \<Rightarrow> exn + nat" where
  "py_index n i =
     (let j = (if i < 0 then i + int n else i)
      in if 0 \<le> j \<and> j < int n then Inr (nat j) else Inl IndexError)"

definition py_get :: "'a list \<Rightarrow> int \<Rightarrow> exn + 'a" where
  "py_get xs i = (case py_index (length xs) i of Inl e \<Rightarrow> Inl e | Inr j \<Rightarrow> Inr (xs ! j))"

definition py_set :: "'a list \<Rightarrow> int \<Rightarrow> 'a \<Rightarrow> exn + 'a list" where
  "py_set xs i v = (case py_index (length xs) i of Inl e \<Rightarrow> Inl e | Inr j \<Rightarrow> Inr (xs[j := v]))"

definition py_del :: "'a list \<Rightarrow> int \<Rightarrow> exn + 'a list" where
  "py_del xs i =
     (case py_index (length xs) i of Inl e \<Rightarrow> Inl e | Inr j \<Rightarrow> Inr (take j xs @ drop (Suc j) xs))"

section \<open>Instructions\<close>

type_synonym label = nat

datatype arg = ANone | AInt int | ALabel label

text \<open>
  The opcode names the optimizer mentions, and two constructors for all the others:
  \<open>OTHER_JUMP\<close> for the remaining opcodes with a jump argument, \<open>OTHER\<close> for the rest.
\<close>

datatype opname =
    LOAD_CONST
  | UNARY_POSITIVE | UNARY_NEGATIVE | UNARY_INVERT | UNARY_NOT
  | RETURN_VALUE
  | BINARY_ADD | BINARY_SUBTRACT | BINARY_MULTIPLY | BINARY_TRUE_DIVIDE
  | BINARY_FLOOR_DIVIDE | BINARY_MODULO | BINARY_POWER | BINARY_LSHIFT
  | BINARY_RSHIFT | BINARY_AND | BINARY_OR | BINARY_XOR | BINARY_SUBSCR
  | BUILD_TUPLE | BUILD_LIST | BUILD_SET
  | UNPACK_SEQUENCE | COMPARE_OP | ROT_TWO | ROT_THREE
  | JUMP_IF_FALSE_OR_POP | JUMP_IF_TRUE_OR_POP
  | POP_JUMP_IF_FALSE | POP_JUMP_IF_TRUE
  | JUMP_FORWARD | JUMP_ABSOLUTE
  | OTHER_JUMP string
  | OTHER string

record instr =
  lineno :: nat
  name :: opname
  arg :: arg

text \<open>\<open>instr.replace(name, arg)\<close>, \<open>instr.replace_arg(arg)\<close> and
  \<open>bytecode.Instr(lineno, name)\<close>.\<close>

definition replace :: "instr \<Rightarrow> opname \<Rightarrow> arg \<Rightarrow> instr" where
  "replace i n a = i\<lparr>name := n, arg := a\<rparr>"

definition replace_arg :: "instr \<Rightarrow> arg \<Rightarrow> instr" where
  "replace_arg i a = i\<lparr>arg := a\<rparr>"

definition Instr :: "nat \<Rightarrow> opname \<Rightarrow> instr" where
  "Instr l n = \<lparr>lineno = l, name = n, arg = ANone\<rparr>"

text \<open>Modelled from the spec: \<open>Instr.is_jump\<close> and \<open>Instr.is_cond_jump\<close> of the
  instruction model, which is not part of the optimizer's file (an unconditional or
  conditional jump; a conditional jump is one of the four \<open>JUMP_IF\<close> opcodes).\<close>

fun is_jump :: "instr \<Rightarrow> bool" where
  "is_jump i =
     (case name i of
        JUMP_IF_FALSE_OR_POP \<Rightarrow> True | JUMP_IF_TRUE_OR_POP \<Rightarrow> True
      | POP_JUMP_IF_FALSE \<Rightarrow> True | POP_JUMP_IF_TRUE \<Rightarrow> True
      | JUMP_FORWARD \<Rightarrow> True | JUMP_ABSOLUTE \<Rightarrow> True
      | OTHER_JUMP s \<Rightarrow> True
      | _ \<Rightarrow> False)"

fun is_cond_jump :: "instr \<Rightarrow> bool" where
  "is_cond_jump i =
     (case name i of
        JUMP_IF_FALSE_OR_POP \<Rightarrow> True | JUMP_IF_TRUE_OR_POP \<Rightarrow> True
      | POP_JUMP_IF_FALSE \<Rightarrow> True | POP_JUMP_IF_TRUE \<Rightarrow> True
      | _ \<Rightarrow> False)"

text \<open>An argument used as an integer (an index, a count): anything else is a TypeError.
  \<open>not instr.arg\<close> holds for \<open>None\<close> and for \<open>0\<close>.\<close>

fun int_arg :: "arg \<Rightarrow> exn + int" where
  "int_arg (AInt i) = Inr i"
| "int_arg ANone = Inl TypeError"
| "int_arg (ALabel l) = Inl TypeError"

fun arg_falsy :: "arg \<Rightarrow> bool" where
  "arg_falsy ANone = True"
| "arg_falsy (AInt i) = (i = 0)"
| "arg_falsy (ALabel l) = False"

section \<open>The optimizer's state\<close>

text \<open>
  \<open>self.code\<close> is the constants table and the list of blocks; \<open>self.block\<close> is a
  reference to one of these blocks, so the blocks are kept in a store addressed by
  block number and \<open>cur\<close> is the address \<open>self.block\<close> refers to. The other fields
  are the attributes of the optimizer.
\<close>

text \<open>Modelled from the spec: the labels of the program model, which is not part of the
  optimizer's file. A label stands for an instruction at (block, offset); \<open>label_tab\<close>
  is that table and \<open>next_label\<close> the next unused label.\<close>

record state =
  code_consts :: "pyval list"
  nblocks :: nat
  blocks :: "nat \<Rightarrow> instr list"
  label_tab :: "label \<rightharpoonup> nat \<times> nat"
  next_label :: label
  const_stack :: "pyval list"
  block_index :: nat
  cur :: nat
  index :: int
  in_consts :: bool

definition get_block :: "state \<Rightarrow> instr list" where
  "get_block st = blocks st (cur st)"

definition set_block :: "state \<Rightarrow> instr list \<Rightarrow> state" where
  "set_block st b = st\<lparr>blocks := (blocks st)(cur st := b)\<rparr>"

text \<open>The host operators (Python's \<open>operator\<close> module), which \<open>unaryop\<close> and
  \<open>binop\<close> receive as their \<open>op\<close> argument.\<close>

record host =
  op_pos :: "pyval \<Rightarrow> exn + pyval"
  op_neg :: "pyval \<Rightarrow> exn + pyval"
  op_invert :: "pyval \<Rightarrow> exn + pyval"
  op_add :: "pyval \<Rightarrow> pyval \<Rightarrow> exn + pyval"
  op_sub :: "pyval \<Rightarrow> pyval \<Rightarrow> exn + pyval"
  op_mul :: "pyval \<Rightarrow> pyval \<Rightarrow> exn + pyval"
  op_truediv :: "pyval \<Rightarrow> pyval \<Rightarrow> exn + pyval"
  op_floordiv :: "pyval \<Rightarrow> pyval \<Rightarrow> exn + pyval"
  op_mod :: "pyval \<Rightarrow> pyval \<Rightarrow> exn + pyval"
  op_pow :: "pyval \<Rightarrow> pyval \<Rightarrow> exn + pyval"
  op_lshift :: "pyval \<Rightarrow> pyval \<Rightarrow> exn + pyval"
  op_rshift :: "pyval \<Rightarrow> pyval \<Rightarrow> exn + pyval"
  op_and :: "pyval \<Rightarrow> pyval \<Rightarrow> exn + pyval"
  op_or :: "pyval \<Rightarrow> pyval \<Rightarrow> exn + pyval"
  op_xor :: "pyval \<Rightarrow> pyval \<Rightarrow> exn + pyval"
  op_getitem :: "pyval \<Rightarrow> pyval \<Rightarrow> exn + pyval"

section \<open>Constant folding\<close>

definition check_result :: "pyval \<Rightarrow> bool" where
  "check_result v = (case py_len v of Inl e \<Rightarrow> True | Inr n \<Rightarrow> n \<le> 20)"

definition replace_load_const :: "int \<Rightarrow> instr \<Rightarrow> pyval \<Rightarrow> state \<Rightarrow> state" where
  "replace_load_const nconst i result st =
     (let const = int (length (code_consts st));
          st1 = st\<lparr>code_consts := code_consts st @ [result], in_consts := True\<rparr>;
          load_const = replace i LOAD_CONST (AInt const);
          start = index st1 - nconst - 1;
          st2 = set_block st1 (slice_assign (get_block st1) start (index st1) [load_const]);
          st3 = st2\<lparr>index := index st2 - nconst\<rparr>;
          st4 = (if nconst \<noteq> 0
                 then st3\<lparr>const_stack := del_from (const_stack st3) (- nconst)\<rparr> else st3)
      in st4\<lparr>const_stack := const_stack st4 @ [result], in_consts := True\<rparr>)"

definition eval_LOAD_CONST :: "instr \<Rightarrow> state \<Rightarrow> exn + state" where
  "eval_LOAD_CONST i st =
     (case int_arg (arg i) of Inl e \<Rightarrow> Inl e
      | Inr a \<Rightarrow>
         (case py_get (code_consts st) a of Inl e \<Rightarrow> Inl e
          | Inr v \<Rightarrow> Inr (st\<lparr>in_consts := True, const_stack := const_stack st @ [v]\<rparr>)))"

text \<open>\<open>unaryop\<close> catches IndexError only: every other exception of \<open>op\<close> leaves the
  handler.\<close>

definition unaryop :: "(pyval \<Rightarrow> exn + pyval) \<Rightarrow> instr \<Rightarrow> state \<Rightarrow> exn + state" where
  "unaryop op i st =
     (case py_get (const_stack st) (- 1) of
        Inl e \<Rightarrow> Inr st
      | Inr v \<Rightarrow>
         (case op v of
            Inl e \<Rightarrow> (if e = IndexError then Inr st else Inl e)
          | Inr result \<Rightarrow>
              if \<not> check_result result then Inr st
              else Inr (replace_load_const 1 i result st)))"

text \<open>\<open>binop\<close> catches every exception of \<open>op\<close>.\<close>

definition binop :: "(pyval \<Rightarrow> pyval \<Rightarrow> exn + pyval) \<Rightarrow> instr \<Rightarrow> state \<Rightarrow> exn + state" where
  "binop op i st =
     (case py_get (const_stack st) (- 2) of
        Inl e \<Rightarrow> Inr st
      | Inr left \<Rightarrow>
         (case py_get (const_stack st) (- 1) of
            Inl e \<Rightarrow> Inr st
          | Inr right \<Rightarrow>
             (case op left right of
                Inl e \<Rightarrow> Inr st
              | Inr result \<Rightarrow>
                  if \<not> check_result result then Inr st
                  else Inr (replace_load_const 2 i result st))))"

section \<open>Pattern handlers\<close>

definition eval_UNARY_NOT :: "instr \<Rightarrow> state \<Rightarrow> exn + state" where
  "eval_UNARY_NOT i st =
     (case py_get (get_block st) (index st) of
        Inl e \<Rightarrow> Inl e
      | Inr next_instr \<Rightarrow>
          if name next_instr = POP_JUMP_IF_FALSE then
            (let i' = replace i POP_JUMP_IF_TRUE (arg next_instr);
                 st1 = set_block st (slice_assign (get_block st) (index st - 1) (index st + 1) [i'])
             in Inr (st1\<lparr>index := index st1 - 1\<rparr>))
          else Inr st)"

definition eval_RETURN_VALUE :: "instr \<Rightarrow> state \<Rightarrow> exn + state" where
  "eval_RETURN_VALUE i st =
     (let n = int (length (get_block st)) - index st in
      if n < 2 then Inr st
      else
        (case py_get (get_block st) (index st + 1) of
           Inl e \<Rightarrow> Inl e
         | Inr instr3 \<Rightarrow>
             if name instr3 = RETURN_VALUE then
               Inr (set_block st (slice_del (get_block st) (index st) (index st + 2)))
             else
               (case py_get (get_block st) (index st) of
                  Inl e \<Rightarrow> Inl e
                | Inr next_instr \<Rightarrow>
                    if name next_instr = JUMP_ABSOLUTE \<or> name next_instr = JUMP_FORWARD then
                      (case py_del (get_block st) (index st) of
                         Inl e \<Rightarrow> Inl e
                       | Inr b \<Rightarrow> Inr (set_block st b))
                    else Inr st)))"

text \<open>\<open>tuple(items)\<close> and \<open>frozenset(items)\<close>.\<close>

definition py_tuple :: "pyval list \<Rightarrow> pyval" where
  "py_tuple items = VTuple items"

definition py_frozenset :: "pyval list \<Rightarrow> pyval" where
  "py_frozenset items = VFrozenset (remdups items)"

definition replace_container_of_consts ::
  "instr \<Rightarrow> (pyval list \<Rightarrow> pyval) \<Rightarrow> state \<Rightarrow> exn + state" where
  "replace_container_of_consts i container_type st =
     (case int_arg (arg i) of
        Inl e \<Rightarrow> Inl e
      | Inr a \<Rightarrow>
          (let items = slice_from (const_stack st) (- a);
               v = container_type items
           in Inr (replace_load_const a i v st)))"

definition build_tuple_unpack_seq :: "instr \<Rightarrow> state \<Rightarrow> exn + state" where
  "build_tuple_unpack_seq i st =
     (case int_arg (arg i) of
        Inl e \<Rightarrow> Inl e
      | Inr a \<Rightarrow>
          if \<not> (1 \<le> a \<and> a \<le> 3) then Inr st
          else
            (case py_get (get_block st) (index st) of
               Inl e \<Rightarrow> Inl e
             | Inr next_instr \<Rightarrow>
                 if \<not> (name next_instr = UNPACK_SEQUENCE \<and> arg next_instr = arg i) then Inr st
                 else if a = 1 then
                   Inr (set_block st (slice_del (get_block st) (index st - 1) (index st + 1)))
                 else if a = 2 then
                   (let i' = Instr (lineno i) ROT_TWO;
                        st1 = set_block st
                                (slice_assign (get_block st) (index st - 1) (index st + 1) [i'])
                    in Inr (st1\<lparr>index := index st1 - 1, const_stack := []\<rparr>))
                 else if a = 3 then
                   (let rot3 = Instr (lineno i) ROT_THREE;
                        rot2 = Instr (lineno i) ROT_TWO;
                        st1 = set_block st
                                (slice_assign (get_block st) (index st - 1) (index st + 1)
                                   [rot3, rot2])
                    in Inr (st1\<lparr>index := index st1 - 1, const_stack := []\<rparr>))
                 else Inr st))"

definition PyCmp_IN :: int where "PyCmp_IN = 6"
definition PyCmp_NOT_IN :: int where "PyCmp_NOT_IN = 7"
definition PyCmp_IS :: int where "PyCmp_IS = 8"
definition PyCmp_IS_NOT :: int where "PyCmp_IS_NOT = 9"

text \<open>\<open>build_tuple\<close> returns True after a fold and None (here False) otherwise.\<close>

definition build_tuple ::
  "instr \<Rightarrow> (pyval list \<Rightarrow> pyval) \<Rightarrow> state \<Rightarrow> exn + (bool \<times> state)" where
  "build_tuple i container_type st =
     (case int_arg (arg i) of
        Inl e \<Rightarrow> Inl e
      | Inr a \<Rightarrow>
          if a > int (length (const_stack st)) then Inr (False, st)
          else
            (case py_get (get_block st) (index st) of
               Inl e \<Rightarrow> Inl e
             | Inr next_instr \<Rightarrow>
                 if \<not> name next_instr = COMPARE_OP then Inr (False, st)
                 else if arg next_instr \<noteq> AInt PyCmp_IN \<and> arg next_instr \<noteq> AInt PyCmp_NOT_IN
                 then Inr (False, st)
                 else
                   (case replace_container_of_consts i container_type st of
                      Inl e \<Rightarrow> Inl e
                    | Inr st' \<Rightarrow> Inr (True, st'))))"

definition eval_BUILD_TUPLE :: "instr \<Rightarrow> state \<Rightarrow> exn + state" where
  "eval_BUILD_TUPLE i st =
     (if arg_falsy (arg i) then Inr st
      else
        (case int_arg (arg i) of
           Inl e \<Rightarrow> Inl e
         | Inr a \<Rightarrow>
             if a \<le> int (length (const_stack st))
             then replace_container_of_consts i py_tuple st
             else build_tuple_unpack_seq i st))"

definition eval_BUILD_LIST :: "instr \<Rightarrow> state \<Rightarrow> exn + state" where
  "eval_BUILD_LIST i st =
     (if arg_falsy (arg i) then Inr st
      else
        (case build_tuple i py_tuple st of
           Inl e \<Rightarrow> Inl e
         | Inr (done, st') \<Rightarrow> if \<not> done then build_tuple_unpack_seq i st' else Inr st'))"

definition eval_BUILD_SET :: "instr \<Rightarrow> state \<Rightarrow> exn + state" where
  "eval_BUILD_SET i st =
     (if arg_falsy (arg i) then Inr st
      else
        (case build_tuple i py_frozenset st of
           Inl e \<Rightarrow> Inl e
         | Inr (done, st') \<Rightarrow> Inr st'))"

fun NOT_PyCmp :: "arg \<Rightarrow> int option" where
  "NOT_PyCmp (AInt c) =
     (if c = PyCmp_IN then Some PyCmp_NOT_IN
      else if c = PyCmp_NOT_IN then Some PyCmp_IN
      else if c = PyCmp_IS then Some PyCmp_IS_NOT
      else if c = PyCmp_IS_NOT then Some PyCmp_IS
      else None)"
| "NOT_PyCmp ANone = None"
| "NOT_PyCmp (ALabel l) = None"

text \<open>\<open>eval_COMPARE_OP\<close> is the one handler that catches the IndexError of its
  lookahead.\<close>

definition eval_COMPARE_OP :: "instr \<Rightarrow> state \<Rightarrow> exn + state" where
  "eval_COMPARE_OP i st =
     (case NOT_PyCmp (arg i) of
        None \<Rightarrow> Inr st
      | Some new_arg \<Rightarrow>
          (case py_get (get_block st) (index st) of
             Inl e \<Rightarrow> (if e = IndexError then Inr st else Inl e)
           | Inr next_instr \<Rightarrow>
               if name next_instr \<noteq> UNARY_NOT then Inr st
               else
                 (let i' = replace_arg i (AInt new_arg)
                  in Inr (set_block st
                            (slice_assign (get_block st) (index st - 1) (index st + 1) [i'])))))"

section \<open>Jumps\<close>

text \<open>Modelled from the spec: \<open>self.code[label][0]\<close>, the instruction a label refers
  to, and \<open>self.code.create_label(label, n)\<close>, a new label \<open>n\<close> instructions past a
  given one; both belong to the program model, which is not part of the optimizer's
  file.\<close>

definition target_of :: "state \<Rightarrow> arg \<Rightarrow> exn + instr" where
  "target_of st a =
     (case a of
        ALabel l \<Rightarrow>
          (case label_tab st l of
             None \<Rightarrow> Inl KeyError
           | Some (b, off) \<Rightarrow> py_get (drop off (blocks st b)) 0)
      | _ \<Rightarrow> Inl TypeError)"

definition create_label :: "label \<Rightarrow> nat \<Rightarrow> state \<Rightarrow> exn + (label \<times> state)" where
  "create_label l n st =
     (case label_tab st l of
        None \<Rightarrow> Inl KeyError
      | Some (b, off) \<Rightarrow>
          Inr (next_label st,
               st\<lparr>label_tab := (label_tab st)(next_label st \<mapsto> (b, off + n)),
                  next_label := Suc (next_label st)\<rparr>))"

definition optimize_jump_to_cond_jump :: "instr \<Rightarrow> state \<Rightarrow> exn + state" where
  "optimize_jump_to_cond_jump i st =
     (case arg i of
        ALabel jump_label \<Rightarrow>
          (case target_of st (arg i) of
             Inl e \<Rightarrow> Inl e
           | Inr target_instr \<Rightarrow>
               if (name i = JUMP_FORWARD \<or> name i = JUMP_ABSOLUTE)
                  \<and> name target_instr = RETURN_VALUE then
                 (case py_set (get_block st) (index st - 1) target_instr of
                    Inl e \<Rightarrow> Inl e
                  | Inr b \<Rightarrow> Inr (set_block st b))
               else if name target_instr = JUMP_FORWARD \<or> name target_instr = JUMP_ABSOLUTE then
                 (let jump_target2 = arg target_instr;
                      nm = (if name i = JUMP_FORWARD then JUMP_ABSOLUTE else name i);
                      i' = replace i nm jump_target2
                  in case py_set (get_block st) (index st - 1) i' of
                       Inl e \<Rightarrow> Inl e
                     | Inr b \<Rightarrow> Inr (set_block st b))
               else Inr st)
      | _ \<Rightarrow> Inl AssertionError)"

definition JUMPS_ON_TRUE :: "opname set" where
  "JUMPS_ON_TRUE = {POP_JUMP_IF_TRUE, JUMP_IF_TRUE_OR_POP}"

definition jump_if_or_pop :: "instr \<Rightarrow> state \<Rightarrow> exn + state" where
  "jump_if_or_pop i st =
     (case target_of st (arg i) of
        Inl e \<Rightarrow> Inl e
      | Inr target_instr \<Rightarrow>
          if \<not> is_cond_jump target_instr then optimize_jump_to_cond_jump i st
          else if (name target_instr \<in> JUMPS_ON_TRUE) = (name i \<in> JUMPS_ON_TRUE) then
            (let i' = replace i (name target_instr) (arg target_instr)
             in case py_set (get_block st) (index st - 1) i' of
                  Inl e \<Rightarrow> Inl e
                | Inr b \<Rightarrow> Inr ((set_block st b)\<lparr>index := index st - 1\<rparr>))
          else
            (let opn = (if name i \<in> JUMPS_ON_TRUE then POP_JUMP_IF_TRUE else POP_JUMP_IF_FALSE)
             in case arg i of
                  ALabel l \<Rightarrow>
                    (case create_label l 1 st of
                       Inl e \<Rightarrow> Inl e
                     | Inr (new_label, st1) \<Rightarrow>
                         (let i' = replace i opn (ALabel new_label)
                          in case py_set (get_block st1) (index st1 - 1) i' of
                               Inl e \<Rightarrow> Inl e
                             | Inr b \<Rightarrow> Inr ((set_block st1 b)\<lparr>index := index st1 - 1\<rparr>)))
                | _ \<Rightarrow> Inl TypeError))"

section \<open>Dispatch and the scan of a block\<close>

text \<open>\<open>getattr(self, 'eval_%s' % instr.name, None)\<close>: the handler registered for an
  opcode, if there is one.\<close>

fun eval_meth :: "host \<Rightarrow> opname \<Rightarrow> (instr \<Rightarrow> state \<Rightarrow> exn + state) option" where
  "eval_meth h LOAD_CONST = Some eval_LOAD_CONST"
| "eval_meth h UNARY_POSITIVE = Some (unaryop (op_pos h))"
| "eval_meth h UNARY_NEGATIVE = Some (unaryop (op_neg h))"
| "eval_meth h UNARY_INVERT = Some (unaryop (op_invert h))"
| "eval_meth h UNARY_NOT = Some eval_UNARY_NOT"
| "eval_meth h RETURN_VALUE = Some eval_RETURN_VALUE"
| "eval_meth h BINARY_ADD = Some (binop (op_add h))"
| "eval_meth h BINARY_SUBTRACT = Some (binop (op_sub h))"
| "eval_meth h BINARY_MULTIPLY = Some (binop (op_mul h))"
| "eval_meth h BINARY_TRUE_DIVIDE = Some (binop (op_truediv h))"
| "eval_meth h BINARY_FLOOR_DIVIDE = Some (binop (op_floordiv h))"
| "eval_meth h BINARY_MODULO = Some (binop (op_mod h))"
| "eval_meth h BINARY_POWER = Some (binop (op_pow h))"
| "eval_meth h BINARY_LSHIFT = Some (binop (op_lshift h))"
| "eval_meth h BINARY_RSHIFT = Some (binop (op_rshift h))"
| "eval_meth h BINARY_AND = Some (binop (op_and h))"
| "eval_meth h BINARY_OR = Some (binop (op_or h))"
| "eval_meth h BINARY_XOR = Some (binop (op_xor h))"
| "eval_meth h BINARY_SUBSCR = Some (binop (op_getitem h))"
| "eval_meth h BUILD_TUPLE = Some eval_BUILD_TUPLE"
| "eval_meth h BUILD_LIST = Some eval_BUILD_LIST"
| "eval_meth h BUILD_SET = Some eval_BUILD_SET"
| "eval_meth h COMPARE_OP = Some eval_COMPARE_OP"
| "eval_meth h JUMP_IF_FALSE_OR_POP = Some jump_if_or_pop"
| "eval_meth h JUMP_IF_TRUE_OR_POP = Some jump_if_or_pop"
| "eval_meth h UNPACK_SEQUENCE = None"
| "eval_meth h ROT_TWO = None"
| "eval_meth h ROT_THREE = None"
| "eval_meth h POP_JUMP_IF_FALSE = None"
| "eval_meth h POP_JUMP_IF_TRUE = None"
| "eval_meth h JUMP_FORWARD = None"
| "eval_meth h JUMP_ABSOLUTE = None"
| "eval_meth h (OTHER_JUMP s) = None"
| "eval_meth h (OTHER s) = None"

text \<open>The body of the loop of \<open>optimize_block\<close>, for the instruction just read.\<close>

definition optimize_instr :: "host \<Rightarrow> instr \<Rightarrow> state \<Rightarrow> exn + state" where
  "optimize_instr h i st =
     (let st1 = (if \<not> in_consts st then st\<lparr>const_stack := []\<rparr> else st);
          st2 = st1\<lparr>in_consts := False\<rparr>
      in case eval_meth h (name i) of
           Some meth \<Rightarrow> meth i st2
         | None \<Rightarrow> if is_jump i then optimize_jump_to_cond_jump i st2 else Inr st2)"

text \<open>
  The loop of \<open>disassemble\<close> and \<open>optimize_block\<close>: read the instruction at the cursor,
  advance the cursor, handle the instruction. Handlers move the cursor back and change
  the block, so the loop gets fuel: \<open>None\<close> means the fuel ran out before the cursor
  reached the end of the block.
\<close>

fun scan :: "host \<Rightarrow> nat \<Rightarrow> state \<Rightarrow> (exn + state) option" where
  "scan h 0 st = (if index st < int (length (get_block st)) then None else Some (Inr st))"
| "scan h (Suc n) st =
     (if index st < int (length (get_block st)) then
        (case py_get (get_block st) (index st) of
           Inl e \<Rightarrow> Some (Inl e)
         | Inr i \<Rightarrow>
             (case optimize_instr h i (st\<lparr>index := index st + 1\<rparr>) of
                Inl e \<Rightarrow> Some (Inl e)
              | Inr st' \<Rightarrow> scan h n st'))
      else Some (Inr st))"

definition optimize_block :: "host \<Rightarrow> nat \<Rightarrow> nat \<Rightarrow> state \<Rightarrow> (exn + state) option" where
  "optimize_block h fuel b st = scan h fuel (st\<lparr>cur := b, index := 0\<rparr>)"

text \<open>The loop of \<open>_optimize\<close> over the blocks, with the same fuel for every block and
  \<open>k\<close> bounding the number of blocks visited.\<close>

fun optimize_blocks :: "host \<Rightarrow> nat \<Rightarrow> nat \<Rightarrow> state \<Rightarrow> (exn + state) option" where
  "optimize_blocks h fuel 0 st = (if block_index st < nblocks st then None else Some (Inr st))"
| "optimize_blocks h fuel (Suc k) st =
     (if block_index st < nblocks st then
        (let b = block_index st;
             st1 = st\<lparr>block_index := block_index st + 1\<rparr>
         in case optimize_block h fuel b st1 of
              None \<Rightarrow> None
            | Some (Inl e) \<Rightarrow> Some (Inl e)
            | Some (Inr st') \<Rightarrow> optimize_blocks h fuel k st')
      else Some (Inr st))"

text \<open>A \<open>bytecode.Code\<close>: the constants, the blocks and the labels.\<close>

record code =
  c_consts :: "pyval list"
  c_blocks :: "instr list list"
  c_labels :: "label \<rightharpoonup> nat \<times> nat"
  c_next_label :: label

text \<open>\<open>__init__\<close> followed by the assignments of \<open>_optimize\<close>: \<open>const_stack\<close> is set
  once for the whole code, \<open>in_consts\<close> keeps the value \<open>__init__\<close> gave it.\<close>

definition init_state :: "code \<Rightarrow> state" where
  "init_state c =
     \<lparr>code_consts = c_consts c,
      nblocks = length (c_blocks c),
      blocks = (\<lambda>b. if b < length (c_blocks c) then c_blocks c ! b else []),
      label_tab = c_labels c,
      next_label = c_next_label c,
      const_stack = [],
      block_index = 0,
      cur = 0,
      index = 0,
      in_consts = False\<rparr>"

definition optimize_code :: "host \<Rightarrow> nat \<Rightarrow> code \<Rightarrow> (exn + state) option" where
  "optimize_code h fuel c = optimize_blocks h fuel (length (c_blocks c)) (init_state c)"

text \<open>The blocks of the code after the pass, as a list.\<close>

definition blocks_of :: "state \<Rightarrow> instr list list" where
  "blocks_of st = map (blocks st) [0..<nblocks st]"

section \<open>The guard and \<open>optimize\<close>\<close>

record code_obj =
  co_code :: "nat list"
  co_lnotab :: "nat list"

definition MIMICK_C_IMPL :: bool where
  "MIMICK_C_IMPL = False"

definition opmap_RETURN_VALUE :: nat where
  "opmap_RETURN_VALUE = 83"

text \<open>\<open>check_bypass_optim\<close>, with the module's flag as an argument.\<close>

definition check_bypass_optim_flag :: "bool \<Rightarrow> code_obj \<Rightarrow> exn + bool" where
  "check_bypass_optim_flag mimick co =
     (if \<not> mimick then Inr False
      else if 255 \<in> set (co_lnotab co) then Inr True
      else
        (let codelen = length (co_code co) in
         if codelen > 32700 then Inr True
         else
           (case py_get (co_code co) (int codelen - 1) of
              Inl e \<Rightarrow> Inl e
            | Inr c \<Rightarrow> if c \<noteq> opmap_RETURN_VALUE then Inr True else Inr False)))"

definition check_bypass_optim :: "code_obj \<Rightarrow> exn + bool" where
  "check_bypass_optim co = check_bypass_optim_flag MIMICK_C_IMPL co"

text \<open>
  \<open>optimize\<close> returns either the code object it was given, or what
  \<open>code.assemble()\<close> makes of the optimized code. The disassembler is an argument;
  the assembler is not modelled, and the second kind of result is the code handed to it.
\<close>

datatype optimize_result = Unchanged code_obj | Assembled state

definition optimize_flag ::
  "bool \<Rightarrow> host \<Rightarrow> nat \<Rightarrow> (code_obj \<Rightarrow> code) \<Rightarrow> code_obj \<Rightarrow> (exn + optimize_result) option" where
  "optimize_flag mimick h fuel disassemble co =
     (case check_bypass_optim_flag mimick co of
        Inl e \<Rightarrow> Some (Inl e)
      | Inr bypass \<Rightarrow>
          if bypass then Some (Inr (Unchanged co))
          else
            (case optimize_code h fuel (disassemble co) of
               None \<Rightarrow> None
             | Some (Inl e) \<Rightarrow> Some (Inl e)
             | Some (Inr st) \<Rightarrow> Some (Inr (Assembled st))))"

definition optimize ::
  "host \<Rightarrow> nat \<Rightarrow> (code_obj \<Rightarrow> code) \<Rightarrow> code_obj \<Rightarrow> (exn + optimize_result) option" where
  "optimize h fuel disassemble co = optimize_flag MIMICK_C_IMPL h fuel disassemble co"

section \<open>Prefixes of a pass\<close>

text \<open>
  The state a pass is in after part of its work. \<open>scan_steps\<close> is the loop of \<open>scan\<close>
  stopped after \<open>n\<close> iterations (earlier when the cursor reaches the end of the block
  or a handler raises); \<open>first_blocks\<close> is the loop of \<open>optimize_blocks\<close> stopped after
  \<open>k\<close> blocks; \<open>pass_prefix\<close> is the pass on a code stopped after \<open>k\<close> blocks and
  \<open>n\<close> iterations of the scan of the next block.
\<close>

fun scan_steps :: "host \<Rightarrow> nat \<Rightarrow> state \<Rightarrow> exn + state" where
  "scan_steps h 0 st = Inr st"
| "scan_steps h (Suc n) st =
     (if index st < int (length (get_block st)) then
        (case py_get (get_block st) (index st) of
           Inl e \<Rightarrow> Inl e
         | Inr i \<Rightarrow>
             (case optimize_instr h i (st\<lparr>index := index st + 1\<rparr>) of
                Inl e \<Rightarrow> Inl e
              | Inr st' \<Rightarrow> scan_steps h n st'))
      else Inr st)"

fun first_blocks :: "host \<Rightarrow> nat \<Rightarrow> nat \<Rightarrow> state \<Rightarrow> (exn + state) option" where
  "first_blocks h fuel 0 st = Some (Inr st)"
| "first_blocks h fuel (Suc k) st =
     (if block_index st < nblocks st then
        (let b = block_index st;
             st1 = st\<lparr>block_index := block_index st + 1\<rparr>
         in case optimize_block h fuel b st1 of
              None \<Rightarrow> None
            | Some (Inl e) \<Rightarrow> Some (Inl e)
            | Some (Inr st') \<Rightarrow> first_blocks h fuel k st')
      else Some (Inr st))"

definition pass_prefix :: "host \<Rightarrow> nat \<Rightarrow> nat \<Rightarrow> nat \<Rightarrow> code \<Rightarrow> (exn + state) option" where
  "pass_prefix h fuel k n c =
     (case first_blocks h fuel k (init_state c) of
        None \<Rightarrow> None
      | Some (Inl e) \<Rightarrow> Some (Inl e)
      | Some (Inr st) \<Rightarrow>
          if block_index st < nblocks st then
            (let b = block_index st;
                 st1 = st\<lparr>block_index := block_index st + 1\<rparr>
             in Some (scan_steps h n (st1\<lparr>cur := b, index := 0\<rparr>)))
          else Some (Inr st))"

text \<open>What is observed of such a state: the current block, the constants table, the
  constant stack, the flag \<open>in_consts\<close> and the cursor.\<close>

definition snapshot ::
  "(exn + state) option \<Rightarrow>
   (exn + instr list \<times> pyval list \<times> pyval list \<times> bool \<times> int) option" where
  "snapshot r =
     map_option (map_sum id (\<lambda>st. (get_block st, code_consts st, const_stack st,
                                     in_consts st, index st))) r"

section \<open>A host for the examples\<close>

text \<open>
  Python's operators on int operands, used by the closed examples only. An operand that is
  not an int is answered with TypeError: that is what Python does for the operands the
  examples use (negating a string), not for every operand.
\<close>

fun int_unop :: "(int \<Rightarrow> int) \<Rightarrow> pyval \<Rightarrow> exn + pyval" where
  "int_unop f (VInt a) = Inr (VInt (f a))"
| "int_unop f VNone = Inl TypeError"
| "int_unop f (VStr s) = Inl TypeError"
| "int_unop f (VTuple xs) = Inl TypeError"
| "int_unop f (VFrozenset xs) = Inl TypeError"
| "int_unop f (VQuotient a b) = Inl TypeError"

fun int_binop :: "(int \<Rightarrow> int \<Rightarrow> exn + pyval) \<Rightarrow> pyval \<Rightarrow> pyval \<Rightarrow> exn + pyval" where
  "int_binop f (VInt a) (VInt b) = f a b"
| "int_binop f x y = Inl TypeError"

definition int_host :: host where
  "int_host =
     \<lparr>op_pos = int_unop (\<lambda>a. a),
      op_neg = int_unop (\<lambda>a. - a),
      op_invert = int_unop (\<lambda>a. - a - 1),
      op_add = int_binop (\<lambda>a b. Inr (VInt (a + b))),
      op_sub = int_binop (\<lambda>a b. Inr (VInt (a - b))),
      op_mul = int_binop (\<lambda>a b. Inr (VInt (a * b))),
      op_truediv = int_binop (\<lambda>a b. if b = 0 then Inl ZeroDivisionError else Inr (VQuotient a b)),
      op_floordiv = int_binop (\<lambda>a b. if b = 0 then Inl ZeroDivisionError else Inr (VInt (a div b))),
      op_mod = int_binop (\<lambda>a b. if b = 0 then Inl ZeroDivisionError else Inr (VInt (a mod b))),
      op_pow = int_binop (\<lambda>a b. if b < 0 then (if a = 0 then Inl ZeroDivisionError
                                                else Inr (VQuotient 1 (a ^ nat (- b))))
                                else Inr (VInt (a ^ nat b))),
      op_lshift = int_binop (\<lambda>a b. if b < 0 then Inl ValueError else Inr (VInt (push_bit (nat b) a))),
      op_rshift = int_binop (\<lambda>a b. if b < 0 then Inl ValueError else Inr (VInt (drop_bit (nat b) a))),
      op_and = int_binop (\<lambda>a b. Inr (VInt (a AND b))),
      op_or = int_binop (\<lambda>a b. Inr (VInt (a OR b))),
      op_xor = int_binop (\<lambda>a b. Inr (VInt (a XOR b))),
      op_getitem = int_binop (\<lambda>a b. Inl TypeError)\<rparr>"

text \<open>The binary folds: the host operator each \<open>eval_BINARY_*\<close> method passes to
  \<open>binop\<close>.\<close>

fun host_binop :: "host \<Rightarrow> opname \<Rightarrow> (pyval \<Rightarrow> pyval \<Rightarrow> exn + pyval) option" where
  "host_binop h BINARY_ADD = Some (op_add h)"
| "host_binop h BINARY_SUBTRACT = Some (op_sub h)"
| "host_binop h BINARY_MULTIPLY = Some (op_mul h)"
| "host_binop h BINARY_TRUE_DIVIDE = Some (op_truediv h)"
| "host_binop h BINARY_FLOOR_DIVIDE = Some (op_floordiv h)"
| "host_binop h BINARY_MODULO = Some (op_mod h)"
| "host_binop h BINARY_POWER = Some (op_pow h)"
| "host_binop h BINARY_LSHIFT = Some (op_lshift h)"
| "host_binop h BINARY_RSHIFT = Some (op_rshift h)"
| "host_binop h BINARY_AND = Some (op_and h)"
| "host_binop h BINARY_OR = Some (op_or h)"
| "host_binop h BINARY_XOR = Some (op_xor h)"
| "host_binop h BINARY_SUBSCR = Some (op_getitem h)"
| "host_binop h n = None"

section \<open>Example programs\<close>

text \<open>An instruction of line 1; a code whose block \<open>b\<close> carries the label \<open>b\<close>; the
  state of the scan of block \<open>b\<close> of a code with the cursor at \<open>i\<close>; and what a pass
  leaves behind: the blocks and the constants table.\<close>

definition ins :: "opname \<Rightarrow> arg \<Rightarrow> instr" where
  "ins n a = \<lparr>lineno = 1, name = n, arg = a\<rparr>"

definition mk_code :: "pyval list \<Rightarrow> instr list list \<Rightarrow> code" where
  "mk_code cs bs =
     \<lparr>c_consts = cs, c_blocks = bs,
      c_labels = (\<lambda>l. if l < length bs then Some (l, 0) else None),
      c_next_label = length bs\<rparr>"

definition at_cursor :: "code \<Rightarrow> nat \<Rightarrow> int \<Rightarrow> pyval list \<Rightarrow> bool \<Rightarrow> state" where
  "at_cursor c b i cs f =
     (init_state c)\<lparr>block_index := Suc b, cur := b, index := i, const_stack := cs,
                    in_consts := f\<rparr>"

definition outcome :: "(exn + state) option \<Rightarrow> (exn + instr list list \<times> pyval list) option" where
  "outcome r = map_option (map_sum id (\<lambda>st. (blocks_of st, code_consts st))) r"

text \<open>What one handler invocation leaves behind: the current block, the constants table
  and the constant stack. And a disassembler that answers with a given code.\<close>

definition handled :: "exn + state \<Rightarrow> exn + instr list \<times> pyval list \<times> pyval list" where
  "handled r = map_sum id (\<lambda>st. (get_block st, code_consts st, const_stack st)) r"

definition disassemble_to :: "code \<Rightarrow> code_obj \<Rightarrow> code" where
  "disassemble_to c co = c"

text \<open>\<open>return 2 + 3\<close>.\<close>

definition add_code :: code where
  "add_code = mk_code [VInt 2, VInt 3]
     [[ins LOAD_CONST (AInt 0), ins LOAD_CONST (AInt 1), ins BINARY_ADD ANone,
       ins RETURN_VALUE ANone]]"

text \<open>\<open>if not 0: f()\<close>: the operand of the negation is a constant.\<close>

definition not_const_code :: code where
  "not_const_code = mk_code [VInt 0, VNone]
     [[ins LOAD_CONST (AInt 0), ins UNARY_NOT ANone, ins POP_JUMP_IF_FALSE (ALabel 1),
       ins (OTHER ''LOAD_NAME'') (AInt 0), ins (OTHER ''POP_TOP'') ANone],
      [ins LOAD_CONST (AInt 1), ins RETURN_VALUE ANone]]"

text \<open>\<open>if not a: f()\<close>.\<close>

definition not_name_code :: code where
  "not_name_code = mk_code [VNone]
     [[ins (OTHER ''LOAD_NAME'') (AInt 0), ins UNARY_NOT ANone, ins POP_JUMP_IF_FALSE (ALabel 1),
       ins (OTHER ''LOAD_NAME'') (AInt 1), ins (OTHER ''POP_TOP'') ANone],
      [ins LOAD_CONST (AInt 0), ins RETURN_VALUE ANone]]"

text \<open>A return followed by a dead \<open>return None\<close>, and a return followed by a dead jump
  and one more instruction.\<close>

definition dead_return_code :: code where
  "dead_return_code = mk_code [VInt 1, VNone]
     [[ins LOAD_CONST (AInt 0), ins RETURN_VALUE ANone,
       ins LOAD_CONST (AInt 1), ins RETURN_VALUE ANone]]"

definition dead_jump_code :: code where
  "dead_jump_code = mk_code [VInt 1, VNone]
     [[ins LOAD_CONST (AInt 0), ins RETURN_VALUE ANone,
       ins JUMP_FORWARD (ALabel 1), ins (OTHER ''POP_TOP'') ANone],
      [ins LOAD_CONST (AInt 1), ins RETURN_VALUE ANone]]"

text \<open>\<open>if c: return 1\<close> / \<open>else: return 2\<close>, as the compiler emits it: the return of the
  first branch is followed by a jump over the second, and the jump ends its block.\<close>

definition if_return_code :: code where
  "if_return_code = mk_code [VInt 1, VInt 2, VNone]
     [[ins (OTHER ''LOAD_NAME'') (AInt 0), ins POP_JUMP_IF_FALSE (ALabel 1),
       ins LOAD_CONST (AInt 0), ins RETURN_VALUE ANone, ins JUMP_FORWARD (ALabel 2)],
      [ins LOAD_CONST (AInt 1), ins RETURN_VALUE ANone],
      [ins LOAD_CONST (AInt 2), ins RETURN_VALUE ANone]]"

text \<open>\<open>a, b = 1, 2\<close> and \<open>a, b = b, a\<close>.\<close>

definition unpack_consts_code :: code where
  "unpack_consts_code = mk_code [VInt 1, VInt 2, VNone]
     [[ins LOAD_CONST (AInt 0), ins LOAD_CONST (AInt 1), ins BUILD_TUPLE (AInt 2),
       ins UNPACK_SEQUENCE (AInt 2), ins (OTHER ''STORE_NAME'') (AInt 0),
       ins (OTHER ''STORE_NAME'') (AInt 1), ins LOAD_CONST (AInt 2), ins RETURN_VALUE ANone]]"

definition swap_code :: code where
  "swap_code = mk_code [VNone]
     [[ins (OTHER ''LOAD_NAME'') (AInt 1), ins (OTHER ''LOAD_NAME'') (AInt 0),
       ins BUILD_TUPLE (AInt 2), ins UNPACK_SEQUENCE (AInt 2),
       ins (OTHER ''STORE_NAME'') (AInt 0), ins (OTHER ''STORE_NAME'') (AInt 1),
       ins LOAD_CONST (AInt 0), ins RETURN_VALUE ANone]]"

text \<open>\<open>return -'abc'\<close>.\<close>

definition neg_str_code :: code where
  "neg_str_code = mk_code [VStr ''abc'']
     [[ins LOAD_CONST (AInt 0), ins UNARY_NEGATIVE ANone, ins RETURN_VALUE ANone]]"

text \<open>\<open>return 2 / 0\<close>.\<close>

definition div_zero_code :: code where
  "div_zero_code = mk_code [VInt 2, VInt 0]
     [[ins LOAD_CONST (AInt 0), ins LOAD_CONST (AInt 1), ins BINARY_TRUE_DIVIDE ANone,
       ins RETURN_VALUE ANone]]"

text \<open>\<open>return x if c else (not a)\<close> and \<open>return (a, b) if c else (d, e)\<close>: the blocks
  start at the jump targets, so the second branch is a block that ends with the
  negation, or with the tuple build.\<close>

definition cond_not_code :: code where
  "cond_not_code = mk_code []
     [[ins (OTHER ''LOAD_NAME'') (AInt 0), ins POP_JUMP_IF_FALSE (ALabel 2)],
      [ins (OTHER ''LOAD_NAME'') (AInt 1), ins JUMP_FORWARD (ALabel 3)],
      [ins (OTHER ''LOAD_NAME'') (AInt 2), ins UNARY_NOT ANone],
      [ins RETURN_VALUE ANone]]"

definition cond_tuple_code :: code where
  "cond_tuple_code = mk_code []
     [[ins (OTHER ''LOAD_NAME'') (AInt 0), ins POP_JUMP_IF_FALSE (ALabel 2)],
      [ins (OTHER ''LOAD_NAME'') (AInt 1), ins (OTHER ''LOAD_NAME'') (AInt 2),
       ins BUILD_TUPLE (AInt 2), ins JUMP_FORWARD (ALabel 3)],
      [ins (OTHER ''LOAD_NAME'') (AInt 3), ins (OTHER ''LOAD_NAME'') (AInt 4),
       ins BUILD_TUPLE (AInt 2)],
      [ins RETURN_VALUE ANone]]"

text \<open>\<open>return -(a if c else 5)\<close>: the constant push of the second branch is a block of
  its own, and the negation starts the next block.\<close>

definition neg_cond_code :: code where
  "neg_cond_code = mk_code [VInt 5]
     [[ins (OTHER ''LOAD_NAME'') (AInt 0), ins POP_JUMP_IF_FALSE (ALabel 2)],
      [ins (OTHER ''LOAD_NAME'') (AInt 1), ins JUMP_FORWARD (ALabel 3)],
      [ins LOAD_CONST (AInt 0)],
      [ins UNARY_NEGATIVE ANone, ins RETURN_VALUE ANone]]"

text \<open>The states of a scan that reads a \<open>UNARY_NEGATIVE\<close> at the start of its block
  with one tracked int on the constant stack and the flag set.\<close>

definition neg_loop :: "state \<Rightarrow> bool" where
  "neg_loop st \<longleftrightarrow>
     index st = 0 \<and> in_consts st \<and> (\<exists>v. const_stack st = [VInt v]) \<and>
     (\<exists>ks r. get_block st = ins UNARY_NEGATIVE ANone # ks @ [r])"

text \<open>\<open>raise 2 + 3\<close>: the code object (one byte for the opcode and one for the argument
  of each instruction) and its disassembly. The last instruction is \<open>RAISE_VARARGS\<close>.\<close>

definition raise_co :: code_obj where
  "raise_co = \<lparr>co_code = [100, 0, 100, 1, 23, 0, 130, 1], co_lnotab = [0, 1]\<rparr>"

definition raise_code :: code where
  "raise_code = mk_code [VInt 2, VInt 3]
     [[ins LOAD_CONST (AInt 0), ins LOAD_CONST (AInt 1), ins BINARY_ADD ANone,
       ins (OTHER ''RAISE_VARARGS'') (AInt 1)]]"

text \<open>What \<open>optimize\<close> returned: nothing for the untouched input, the blocks and the
  constants for an optimized code.\<close>

definition rewritten ::
  "(exn + optimize_result) option \<Rightarrow> (exn + (instr list list \<times> pyval list) option) option" where
  "rewritten r =
     map_option (map_sum id (\<lambda>x. case x of Unchanged co \<Rightarrow> None
                                   | Assembled st \<Rightarrow> Some (blocks_of st, code_consts st))) r"

text \<open>\<open>return (a if c else 1) + 2\<close>: the blocks start at the jump targets, so the push
  of 1 is a block of its own, and the push of 2 and the addition are in the next
  block.\<close>

definition add_cond_code :: code where
  "add_cond_code = mk_code [VInt 1, VInt 2]
     [[ins (OTHER ''LOAD_NAME'') (AInt 0), ins POP_JUMP_IF_FALSE (ALabel 1),
       ins (OTHER ''LOAD_NAME'') (AInt 1), ins JUMP_FORWARD (ALabel 2)],
      [ins LOAD_CONST (AInt 0)],
      [ins LOAD_CONST (AInt 1), ins BINARY_ADD ANone, ins RETURN_VALUE ANone]]"

section \<open>Properties\<close>

subsection \<open>Auxiliary facts about the list primitives\<close>

lemma py_get_last: "py_get (xs @ [x]) (- 1) = Inr x"
  by (simp add: py_get_def py_index_def)

lemma py_get_last2: "py_get (xs @ [x, y]) (- 2) = Inr x"
  by (simp add: py_get_def py_index_def nth_append)

lemma slice_assign_mid:
  "slice_assign (pre @ mid @ post) (int (length pre)) (int (length pre) + int (length mid)) ys
     = pre @ ys @ post"
  by (simp add: slice_assign_def slice_bound_def nat_add_distrib)

lemma eval_meth_binop: "host_binop h n = Some op \<Longrightarrow> eval_meth h n = Some (binop op)"
  by (cases n) auto

subsection \<open>Binary constant fold\<close>

text \<open>
  The fold inside a block. A binary-fold opcode whose handler finds two tracked constants
  \<open>l\<close> and \<open>r\<close> on top of the constant stack, with the host operation succeeding on them
  and the result \<open>v\<close> passing the size guard, and with two instructions before the binary
  instruction in the current block: these two instructions and the binary instruction
  are replaced by one \<open>LOAD_CONST\<close> whose argument is the index of \<open>v\<close>, appended to the
  constants table; the two operands on the constant stack are replaced by \<open>v\<close>, and the
  cursor moves back by two.
\<close>

lemma binop_fold:
  assumes op: "host_binop h (name i) = Some op"
    and stack: "const_stack st = cs @ [l, r]"
    and res: "op l r = Inr v"
    and ok: "check_result v"
    and blk: "get_block st = pre @ [p1, p2, i] @ post"
    and idx: "index st = int (length pre) + 3"
  shows "\<exists>meth. eval_meth h (name i) = Some meth \<and>
           meth i st =
             Inr (st\<lparr>code_consts := code_consts st @ [v],
                     blocks := (blocks st)
                        (cur st := pre @ [replace i LOAD_CONST
                                            (AInt (int (length (code_consts st))))] @ post),
                     index := index st - 2,
                     const_stack := cs @ [v],
                     in_consts := True\<rparr>)"
proof -
  have m: "eval_meth h (name i) = Some (binop op)"
    using op by (rule eval_meth_binop)
  have g2: "py_get (const_stack st) (- 2) = Inr l"
    using py_get_last2 [of cs l r] stack by simp
  have g1: "py_get (const_stack st) (- 1) = Inr r"
    using py_get_last [of "cs @ [l]" r] stack by simp
  have sl: "slice_assign (get_block st) (index st - 3) (index st) ys = pre @ ys @ post" for ys
    using slice_assign_mid [of pre "[p1, p2, i]" post ys] blk idx by simp
  have "binop op i st = Inr (replace_load_const 2 i v st)"
    by (simp add: binop_def g2 g1 res ok)
  moreover have "replace_load_const 2 i v st =
      st\<lparr>code_consts := code_consts st @ [v],
         blocks := (blocks st)
            (cur st := pre @ [replace i LOAD_CONST (AInt (int (length (code_consts st))))] @ post),
         index := index st - 2,
         const_stack := cs @ [v],
         in_consts := True\<rparr>"
    using sl stack
    by (simp add: replace_load_const_def Let_def set_block_def get_block_def del_from_def
        slice_bound_def)
  ultimately show ?thesis using m by simp
qed

text \<open>\<open>push(2); push(3); add\<close> becomes \<open>push(5)\<close>, the new constant number 2.\<close>

lemma binop_fold_example:
  "\<exists>meth st'. eval_meth int_host BINARY_ADD = Some meth
     \<and> meth (ins BINARY_ADD ANone) (at_cursor add_code 0 3 [VInt 2, VInt 3] False) = Inr st'
     \<and> get_block st' = [ins LOAD_CONST (AInt 2), ins RETURN_VALUE ANone]
     \<and> code_consts st' = [VInt 2, VInt 3, VInt 5]
     \<and> const_stack st' = [VInt 5]"
proof -
  let ?i = "ins BINARY_ADD ANone"
  let ?st = "at_cursor add_code 0 3 [VInt 2, VInt 3] False"
  have h1: "host_binop int_host (name ?i) = Some (op_add int_host)"
    by (simp add: ins_def)
  have h2: "const_stack ?st = [] @ [VInt 2, VInt 3]"
    by (simp add: at_cursor_def)
  have h3: "op_add int_host (VInt 2) (VInt 3) = Inr (VInt 5)"
    by (simp add: int_host_def)
  have h4: "check_result (VInt 5)"
    by (simp add: check_result_def)
  have h5: "get_block ?st =
      [] @ [ins LOAD_CONST (AInt 0), ins LOAD_CONST (AInt 1), ?i] @ [ins RETURN_VALUE ANone]"
    by (simp add: at_cursor_def get_block_def init_state_def add_code_def mk_code_def)
  have h6: "index ?st = int (length ([] :: instr list)) + 3"
    by (simp add: at_cursor_def)
  from binop_fold [OF h1 h2 h3 h4 h5 h6]
  obtain meth where m: "eval_meth int_host (name ?i) = Some meth"
    and r: "meth ?i ?st =
      Inr (?st\<lparr>code_consts := code_consts ?st @ [VInt 5],
              blocks := (blocks ?st)
                 (cur ?st := [] @ [replace ?i LOAD_CONST (AInt (int (length (code_consts ?st))))]
                              @ [ins RETURN_VALUE ANone]),
              index := index ?st - 2,
              const_stack := [] @ [VInt 5],
              in_consts := True\<rparr>)"
    by blast
  have n: "name ?i = BINARY_ADD"
    by (simp add: ins_def)
  show ?thesis
    apply (rule exI [of _ meth])
    apply (rule exI)
    apply (rule conjI)
    using m n apply simp
    apply (rule conjI)
     apply (rule r)
    apply (simp add: get_block_def at_cursor_def init_state_def add_code_def mk_code_def
        replace_def ins_def)
    done
qed

lemma py_get_mid: "py_get (pre @ x # post) (int (length pre)) = Inr x"
  by (simp add: py_get_def py_index_def)

lemma py_get_mid2: "py_get (pre @ x # y # post) (int (length pre) + 1) = Inr y"
  by (simp add: py_get_def py_index_def nth_append nat_add_distrib)

lemma set_block_same: "set_block st (get_block st) = st"
  by (simp add: set_block_def get_block_def)

subsection \<open>Negation followed by a conditional jump\<close>

text \<open>
  C7, as the code has it. A \<open>UNARY_NOT\<close> immediately followed by \<open>POP_JUMP_IF_FALSE\<close> is
  replaced, together with that jump, by one \<open>POP_JUMP_IF_TRUE\<close> to the same target, and
  the cursor moves back by one. Nothing about the constant stack is asked: the fusion
  takes place whether or not the operand of the negation is a tracked constant, and
  the constant stack is left as it is (the negation of a constant is not folded).
\<close>

theorem not_jump_fusion:
  assumes nm: "name i = UNARY_NOT"
    and blk: "get_block st = pre @ [i, nx] @ post"
    and idx: "index st = int (length pre) + 1"
    and nx: "name nx = POP_JUMP_IF_FALSE"
  shows "\<exists>meth. eval_meth h (name i) = Some meth \<and>
           meth i st =
             Inr (st\<lparr>blocks := (blocks st)
                        (cur st := pre @ [replace i POP_JUMP_IF_TRUE (arg nx)] @ post),
                     index := index st - 1\<rparr>)"
proof -
  have g: "py_get (get_block st) (index st) = Inr nx"
    using py_get_mid2 [of pre i nx post] blk idx by simp
  have sl: "slice_assign (get_block st) (index st - 1) (index st + 1) ys = pre @ ys @ post" for ys
    using slice_assign_mid [of pre "[i, nx]" post ys] blk idx by (simp add: add.commute)
  have "eval_UNARY_NOT i st =
      Inr (st\<lparr>blocks := (blocks st)
                 (cur st := pre @ [replace i POP_JUMP_IF_TRUE (arg nx)] @ post),
              index := index st - 1\<rparr>)"
    by (simp add: eval_UNARY_NOT_def g nx sl Let_def set_block_def)
  then show ?thesis using nm by simp
qed

theorem not_jump_fusion_witness:
  "\<exists>meth st'. eval_meth int_host UNARY_NOT = Some meth
     \<and> meth (ins UNARY_NOT ANone) (at_cursor not_name_code 0 2 [] False) = Inr st'
     \<and> get_block st' =
          [ins (OTHER ''LOAD_NAME'') (AInt 0), ins POP_JUMP_IF_TRUE (ALabel 1),
           ins (OTHER ''LOAD_NAME'') (AInt 1), ins (OTHER ''POP_TOP'') ANone]
     \<and> index st' = 1"
proof -
  let ?i = "ins UNARY_NOT ANone"
  let ?nx = "ins POP_JUMP_IF_FALSE (ALabel 1)"
  let ?st = "at_cursor not_name_code 0 2 [] False"
  have n: "name ?i = UNARY_NOT"
    by (simp add: ins_def)
  have b: "get_block ?st = [ins (OTHER ''LOAD_NAME'') (AInt 0)] @ [?i, ?nx]
      @ [ins (OTHER ''LOAD_NAME'') (AInt 1), ins (OTHER ''POP_TOP'') ANone]"
    by (simp add: at_cursor_def get_block_def init_state_def not_name_code_def mk_code_def)
  have x: "index ?st = int (length [ins (OTHER ''LOAD_NAME'') (AInt 0)]) + 1"
    by (simp add: at_cursor_def)
  have j: "name ?nx = POP_JUMP_IF_FALSE"
    by (simp add: ins_def)
  show ?thesis
    using not_jump_fusion [OF n b x j, of int_host]
    by (auto simp add: n ins_def replace_def get_block_def at_cursor_def)
qed

text \<open>The claim as stated fails: in \<open>if not 0: f()\<close> the operand of the negation is the
  tracked constant 0, and the pass fuses the negation with the jump all the same.\<close>

theorem not_jump_fusion_counterexample:
  "outcome (optimize_code int_host 5 not_const_code) =
     Some (Inr ([[ins LOAD_CONST (AInt 0), ins POP_JUMP_IF_TRUE (ALabel 1),
                  ins (OTHER ''LOAD_NAME'') (AInt 0), ins (OTHER ''POP_TOP'') ANone],
                 [ins LOAD_CONST (AInt 1), ins RETURN_VALUE ANone]],
                [VInt 0, VNone]))
   \<and> handled (optimize_instr int_host (ins UNARY_NOT ANone)
                 (at_cursor not_const_code 0 2 [VInt 0] True)) =
      Inr ([ins LOAD_CONST (AInt 0), ins POP_JUMP_IF_TRUE (ALabel 1),
            ins (OTHER ''LOAD_NAME'') (AInt 0), ins (OTHER ''POP_TOP'') ANone],
           [VInt 0, VNone], [VInt 0])"
  by code_simp

subsection \<open>Return followed by dead instructions\<close>

text \<open>
  C8, as the code has it. Let \<open>rest\<close> be what follows a \<open>RETURN_VALUE\<close> in its block.
  When \<open>rest\<close> has at least two instructions \<open>x\<close>, \<open>y\<close>: if \<open>y\<close>, the second one, is a
  \<open>RETURN_VALUE\<close>, then \<open>x\<close> and \<open>y\<close> are deleted; otherwise, if \<open>x\<close> is \<open>JUMP_ABSOLUTE\<close>
  or \<open>JUMP_FORWARD\<close>, then \<open>x\<close> is deleted; otherwise nothing changes. When \<open>rest\<close> has
  fewer than two instructions, nothing changes. The handler changes nothing but the
  block.
\<close>

theorem return_simplification:
  assumes nm: "name i = RETURN_VALUE"
    and blk: "get_block st = pre @ rest"
    and idx: "index st = int (length pre)"
  shows "\<exists>meth. eval_meth h (name i) = Some meth \<and>
     meth i st =
       Inr (set_block st
             (pre @ (case rest of
                       x # y # post \<Rightarrow>
                         if name y = RETURN_VALUE then post
                         else if name x = JUMP_ABSOLUTE \<or> name x = JUMP_FORWARD then y # post
                         else rest
                     | _ \<Rightarrow> rest)))"
proof -
  have "eval_RETURN_VALUE i st =
       Inr (set_block st
             (pre @ (case rest of
                       x # y # post \<Rightarrow>
                         if name y = RETURN_VALUE then post
                         else if name x = JUMP_ABSOLUTE \<or> name x = JUMP_FORWARD then y # post
                         else rest
                     | _ \<Rightarrow> rest)))"
  proof (cases rest)
    case Nil
    then show ?thesis
      using blk idx set_block_same [of st] by (simp add: eval_RETURN_VALUE_def)
  next
    case (Cons x r1)
    show ?thesis
    proof (cases r1)
      case Nil
      then show ?thesis
        using Cons blk idx set_block_same [of st] by (simp add: eval_RETURN_VALUE_def)
    next
      case (Cons y post)
      have b: "get_block st = pre @ [x, y] @ post"
        using blk \<open>rest = x # r1\<close> Cons by simp
      have n: "\<not> int (length (get_block st)) - index st < 2"
        using b idx by simp
      have g: "py_get (get_block st) (index st + 1) = Inr y"
        using py_get_mid2 [of pre x y post] b idx by simp
      have g0: "py_get (get_block st) (index st) = Inr x"
        using py_get_mid [of pre x "y # post"] b idx by simp
      have sl: "slice_del (get_block st) (index st) (index st + 2) = pre @ post"
        using slice_assign_mid [of pre "[x, y]" post "[]"] b idx
        by (simp add: slice_del_def add.commute)
      have d: "py_del (get_block st) (index st) = Inr (pre @ y # post)"
        using b idx by (simp add: py_del_def py_index_def)
      have same: "set_block st (pre @ x # y # post) = st"
        using set_block_same [of st] b by simp
      show ?thesis
        using \<open>rest = x # r1\<close> Cons
        by (simp add: eval_RETURN_VALUE_def n g g0 sl d same)
    qed
  qed
  then show ?thesis using nm by simp
qed

theorem return_simplification_witness:
  "(\<exists>meth st'. eval_meth int_host RETURN_VALUE = Some meth
      \<and> meth (ins RETURN_VALUE ANone) (at_cursor dead_return_code 0 2 [] False) = Inr st'
      \<and> get_block st' = [ins LOAD_CONST (AInt 0), ins RETURN_VALUE ANone])
   \<and> (\<exists>meth st'. eval_meth int_host RETURN_VALUE = Some meth
      \<and> meth (ins RETURN_VALUE ANone) (at_cursor dead_jump_code 0 2 [] False) = Inr st'
      \<and> get_block st' = [ins LOAD_CONST (AInt 0), ins RETURN_VALUE ANone,
                          ins (OTHER ''POP_TOP'') ANone])"
proof -
  let ?i = "ins RETURN_VALUE ANone"
  have n: "name ?i = RETURN_VALUE"
    by (simp add: ins_def)
  let ?s = "at_cursor dead_return_code 0 2 [] False"
  have b1: "get_block ?s = [ins LOAD_CONST (AInt 0), ?i] @ [ins LOAD_CONST (AInt 1), ?i]"
    by (simp add: at_cursor_def get_block_def init_state_def dead_return_code_def mk_code_def)
  have i1: "index ?s = int (length [ins LOAD_CONST (AInt 0), ?i])"
    by (simp add: at_cursor_def)
  let ?t = "at_cursor dead_jump_code 0 2 [] False"
  have b2: "get_block ?t = [ins LOAD_CONST (AInt 0), ?i]
       @ [ins JUMP_FORWARD (ALabel 1), ins (OTHER ''POP_TOP'') ANone]"
    by (simp add: at_cursor_def get_block_def init_state_def dead_jump_code_def mk_code_def)
  have i2: "index ?t = int (length [ins LOAD_CONST (AInt 0), ?i])"
    by (simp add: at_cursor_def)
  have p1: ?thesis
    using return_simplification [OF n b1 i1, of int_host]
          return_simplification [OF n b2 i2, of int_host]
    by (auto simp add: n ins_def set_block_def get_block_def)
  then show ?thesis .
qed

text \<open>The claim as stated fails on the code the compiler emits for
  \<open>if c: return 1\<close> / \<open>else: return 2\<close>: the jump after the first return is the last
  instruction of its block, and the pass leaves the code as it was.\<close>

theorem return_simplification_counterexample:
  "outcome (optimize_code int_host 5 if_return_code) =
     Some (Inr (c_blocks if_return_code, c_consts if_return_code))
   \<and> c_blocks if_return_code ! 0 ! 3 = ins RETURN_VALUE ANone
   \<and> c_blocks if_return_code ! 0 ! 4 = ins JUMP_FORWARD (ALabel 2)"
  by code_simp

subsection \<open>Building a tuple and unpacking it\<close>

text \<open>
  C9, as the code has it. A \<open>BUILD_TUPLE n\<close> with \<open>1 \<le> n \<le> 3\<close>, reached with fewer than
  \<open>n\<close> tracked constants and immediately followed by \<open>UNPACK_SEQUENCE n\<close>: for \<open>n = 1\<close>
  both instructions are deleted, for \<open>n = 2\<close> they are replaced by \<open>ROT_TWO\<close>, for
  \<open>n = 3\<close> by \<open>ROT_THREE\<close>, \<open>ROT_TWO\<close>; the constant stack is empty afterwards.
\<close>

theorem build_tuple_unpack:
  assumes nm: "name i = BUILD_TUPLE"
    and ar: "arg i = AInt n"
    and rng: "1 \<le> n" "n \<le> 3"
    and few: "int (length (const_stack st)) < n"
    and blk: "get_block st = pre @ [i, nx] @ post"
    and idx: "index st = int (length pre) + 1"
    and nx: "name nx = UNPACK_SEQUENCE" "arg nx = AInt n"
  shows "\<exists>meth st'. eval_meth h (name i) = Some meth \<and> meth i st = Inr st' \<and>
           const_stack st' = [] \<and>
           get_block st' =
             pre @ (if n = 1 then []
                    else if n = 2 then [Instr (lineno i) ROT_TWO]
                    else [Instr (lineno i) ROT_THREE, Instr (lineno i) ROT_TWO]) @ post"
proof -
  have g: "py_get (get_block st) (index st) = Inr nx"
    using py_get_mid2 [of pre i nx post] blk idx by simp
  have sl: "slice_assign (get_block st) (index st - 1) (index st + 1) ys = pre @ ys @ post" for ys
    using slice_assign_mid [of pre "[i, nx]" post ys] blk idx by (simp add: add.commute)
  have nz: "\<not> arg_falsy (arg i)"
    using ar rng by simp
  have e: "eval_BUILD_TUPLE i st = build_tuple_unpack_seq i st"
    using few by (simp add: eval_BUILD_TUPLE_def nz ar)
  consider "n = 1" | "n = 2" | "n = 3"
    using rng by linarith
  then have "\<exists>st'. build_tuple_unpack_seq i st = Inr st' \<and> const_stack st' = [] \<and>
           get_block st' =
             pre @ (if n = 1 then []
                    else if n = 2 then [Instr (lineno i) ROT_TWO]
                    else [Instr (lineno i) ROT_THREE, Instr (lineno i) ROT_TWO]) @ post"
  proof cases
    case 1
    then have c: "const_stack st = []" using few by simp
    have "build_tuple_unpack_seq i st = Inr (set_block st (pre @ post))"
      using 1 sl [of "[]"] by (simp add: build_tuple_unpack_seq_def ar g nx slice_del_def)
    then show ?thesis
      using 1 c by (simp add: set_block_def get_block_def)
  next
    case 2
    have "build_tuple_unpack_seq i st =
        Inr ((set_block st (pre @ [Instr (lineno i) ROT_TWO] @ post))
               \<lparr>index := index st - 1, const_stack := []\<rparr>)"
      using 2 by (simp add: build_tuple_unpack_seq_def ar g nx sl Let_def set_block_def)
    then show ?thesis
      using 2 by (simp add: set_block_def get_block_def)
  next
    case 3
    have "build_tuple_unpack_seq i st =
        Inr ((set_block st (pre @ [Instr (lineno i) ROT_THREE, Instr (lineno i) ROT_TWO] @ post))
               \<lparr>index := index st - 1, const_stack := []\<rparr>)"
      using 3 by (simp add: build_tuple_unpack_seq_def ar g nx sl Let_def set_block_def)
    then show ?thesis
      using 3 by (simp add: set_block_def get_block_def)
  qed
  then show ?thesis using nm e by simp
qed

theorem build_tuple_unpack_witness:
  "\<exists>meth st'. eval_meth int_host BUILD_TUPLE = Some meth
     \<and> meth (ins BUILD_TUPLE (AInt 2)) (at_cursor swap_code 0 3 [] False) = Inr st'
     \<and> const_stack st' = []
     \<and> get_block st' =
          [ins (OTHER ''LOAD_NAME'') (AInt 1), ins (OTHER ''LOAD_NAME'') (AInt 0),
           Instr 1 ROT_TWO,
           ins (OTHER ''STORE_NAME'') (AInt 0), ins (OTHER ''STORE_NAME'') (AInt 1),
           ins LOAD_CONST (AInt 0), ins RETURN_VALUE ANone]"
proof -
  let ?i = "ins BUILD_TUPLE (AInt 2)"
  let ?nx = "ins UNPACK_SEQUENCE (AInt 2)"
  let ?st = "at_cursor swap_code 0 3 [] False"
  have n: "name ?i = BUILD_TUPLE"
    by (simp add: ins_def)
  have a: "arg ?i = AInt 2"
    by (simp add: ins_def)
  have r1: "(1::int) \<le> 2" and r2: "(2::int) \<le> 3"
    by simp_all
  have f: "int (length (const_stack ?st)) < 2"
    by (simp add: at_cursor_def)
  have b: "get_block ?st =
      [ins (OTHER ''LOAD_NAME'') (AInt 1), ins (OTHER ''LOAD_NAME'') (AInt 0)] @ [?i, ?nx]
      @ [ins (OTHER ''STORE_NAME'') (AInt 0), ins (OTHER ''STORE_NAME'') (AInt 1),
         ins LOAD_CONST (AInt 0), ins RETURN_VALUE ANone]"
    by (simp add: at_cursor_def get_block_def init_state_def swap_code_def mk_code_def)
  have x: "index ?st =
      int (length [ins (OTHER ''LOAD_NAME'') (AInt 1), ins (OTHER ''LOAD_NAME'') (AInt 0)]) + 1"
    by (simp add: at_cursor_def)
  have j1: "name ?nx = UNPACK_SEQUENCE" and j2: "arg ?nx = AInt 2"
    by (simp_all add: ins_def)
  show ?thesis
    using build_tuple_unpack [OF n a r1 r2 f b x j1 j2, of int_host]
    by (auto simp add: n ins_def)
qed

text \<open>The claim as stated fails on \<open>a, b = 1, 2\<close>: both elements are tracked constants,
  and the pass folds the tuple into the constant \<open>(1, 2)\<close> and keeps the unpack.\<close>

theorem build_tuple_unpack_counterexample:
  "outcome (optimize_code int_host 8 unpack_consts_code) =
     Some (Inr ([[ins LOAD_CONST (AInt 3), ins UNPACK_SEQUENCE (AInt 2),
                  ins (OTHER ''STORE_NAME'') (AInt 0), ins (OTHER ''STORE_NAME'') (AInt 1),
                  ins LOAD_CONST (AInt 2), ins RETURN_VALUE ANone]],
                [VInt 1, VInt 2, VNone, VTuple [VInt 1, VInt 2]]))"
  by code_simp

subsection \<open>A constant carried into the next block\<close>

text \<open>
  The scan of a block ends at once when the cursor is at the end, and otherwise takes
  one step. For \<open>neg_cond_code\<close> the scan of the last block begins with the constant 5
  of the block before it still on the constant stack, and with the flag still set; from
  there every step folds the negation at the start of the block, inserts the push
  before the last instruction and puts the cursor back at the negation.
\<close>

lemma scan_done: "\<not> index st < int (length (get_block st)) \<Longrightarrow> scan h n st = Some (Inr st)"
  by (cases n) simp_all

lemma scan_step:
  "index st < int (length (get_block st)) \<Longrightarrow> py_get (get_block st) (index st) = Inr i \<Longrightarrow>
   optimize_instr h i (st\<lparr>index := index st + 1\<rparr>) = Inr st' \<Longrightarrow>
   scan h (Suc n) st = scan h n st'"
  by simp

lemma neg_loop_step:
  assumes "neg_loop st"
  shows "\<exists>st'. optimize_instr int_host (ins UNARY_NEGATIVE ANone) (st\<lparr>index := index st + 1\<rparr>) = Inr st'
            \<and> neg_loop st'"
proof -
  from assms obtain v ks r where i: "index st = 0" and f: "in_consts st"
    and c: "const_stack st = [VInt v]"
    and b: "get_block st = ins UNARY_NEGATIVE ANone # ks @ [r]"
    by (auto simp add: neg_loop_def)
  let ?lc = "replace (ins UNARY_NEGATIVE ANone) LOAD_CONST (AInt (int (length (code_consts st))))"
  have sl: "slice_assign (ins UNARY_NEGATIVE ANone # ks @ [r]) (- 1) 1 [?lc]
      = ins UNARY_NEGATIVE ANone # (ks @ [?lc]) @ [r]"
  proof -
    have n: "nat (1 + int (length ks)) = Suc (length ks)"
      by simp
    show ?thesis
      by (simp add: slice_assign_def slice_bound_def Let_def n)
  qed
  have "optimize_instr int_host (ins UNARY_NEGATIVE ANone) (st\<lparr>index := index st + 1\<rparr>)
      = Inr (st\<lparr>code_consts := code_consts st @ [VInt (- v)],
               blocks := (blocks st)(cur st := ins UNARY_NEGATIVE ANone # (ks @ [?lc]) @ [r]),
               const_stack := [VInt (- v)]\<rparr>)"
    using i f c b sl
    by (simp add: optimize_instr_def ins_def unaryop_def py_get_def py_index_def int_host_def
        check_result_def replace_load_const_def Let_def set_block_def get_block_def del_from_def
        slice_bound_def)
  moreover have "neg_loop (st\<lparr>code_consts := code_consts st @ [VInt (- v)],
               blocks := (blocks st)(cur st := ins UNARY_NEGATIVE ANone # (ks @ [?lc]) @ [r]),
               const_stack := [VInt (- v)]\<rparr>)"
    using i f unfolding neg_loop_def get_block_def by simp
  ultimately show ?thesis by simp
qed

lemma neg_loop_never_ends: "neg_loop st \<Longrightarrow> scan int_host n st = None"
proof (induction n arbitrary: st)
  case 0
  then show ?case by (auto simp add: neg_loop_def)
next
  case (Suc n)
  from Suc.prems obtain ks r where i: "index st = 0"
    and b: "get_block st = ins UNARY_NEGATIVE ANone # ks @ [r]"
    by (auto simp add: neg_loop_def)
  have lt: "index st < int (length (get_block st))"
    using i b by simp
  have g: "py_get (get_block st) (index st) = Inr (ins UNARY_NEGATIVE ANone)"
    using i b by (simp add: py_get_def py_index_def)
  from neg_loop_step [OF Suc.prems] obtain st'
    where s: "optimize_instr int_host (ins UNARY_NEGATIVE ANone) (st\<lparr>index := index st + 1\<rparr>) = Inr st'"
      and l: "neg_loop st'"
    by blast
  have "scan int_host (Suc n) st = scan int_host n st'"
    using lt g s by (rule scan_step)
  then show ?case using Suc.IH [OF l] by simp
qed

lemma optimize_blocks_step:
  "block_index st < nblocks st \<Longrightarrow>
   optimize_block h fuel (block_index st) (st\<lparr>block_index := block_index st + 1\<rparr>) = Some (Inr st') \<Longrightarrow>
   optimize_blocks h fuel (Suc k) st = optimize_blocks h fuel k st'"
  by (simp add: Let_def)

lemma neg_cond_block0:
  "optimize_block int_host (Suc (Suc n)) (block_index (init_state neg_cond_code))
       ((init_state neg_cond_code)\<lparr>block_index := block_index (init_state neg_cond_code) + 1\<rparr>)
     = Some (Inr (at_cursor neg_cond_code 0 2 [] False))"
  by (simp add: neg_cond_code_def mk_code_def init_state_def
      optimize_block_def get_block_def py_get_def py_index_def optimize_instr_def ins_def
      optimize_jump_to_cond_jump_def target_of_def eval_LOAD_CONST_def Let_def at_cursor_def
      scan_done)

lemma neg_cond_block1:
  "optimize_block int_host (Suc (Suc n)) (block_index (at_cursor neg_cond_code 0 2 [] False))
       ((at_cursor neg_cond_code 0 2 [] False)\<lparr>block_index := block_index (at_cursor neg_cond_code 0 2 [] False) + 1\<rparr>)
     = Some (Inr (at_cursor neg_cond_code 1 2 [] False))"
  by (simp add: neg_cond_code_def mk_code_def init_state_def
      optimize_block_def get_block_def py_get_def py_index_def optimize_instr_def ins_def
      optimize_jump_to_cond_jump_def target_of_def eval_LOAD_CONST_def Let_def at_cursor_def
      scan_done)

lemma neg_cond_block2:
  "optimize_block int_host (Suc (Suc n)) (block_index (at_cursor neg_cond_code 1 2 [] False))
       ((at_cursor neg_cond_code 1 2 [] False)\<lparr>block_index := block_index (at_cursor neg_cond_code 1 2 [] False) + 1\<rparr>)
     = Some (Inr (at_cursor neg_cond_code 2 1 [VInt 5] True))"
  by (simp add: neg_cond_code_def mk_code_def init_state_def
      optimize_block_def get_block_def py_get_def py_index_def optimize_instr_def ins_def
      optimize_jump_to_cond_jump_def target_of_def eval_LOAD_CONST_def Let_def at_cursor_def
      scan_done)

lemma reach_last_block:
  "optimize_code int_host (Suc (Suc n)) neg_cond_code =
     optimize_blocks int_host (Suc (Suc n)) (Suc 0) (at_cursor neg_cond_code 2 1 [VInt 5] True)"
proof -
  have nb: "block_index (init_state neg_cond_code) < nblocks (init_state neg_cond_code)"
    by (simp add: init_state_def neg_cond_code_def mk_code_def)
  have nb0: "block_index (at_cursor neg_cond_code 0 i cs f) < nblocks (at_cursor neg_cond_code 0 i cs f)"
    and nb1: "block_index (at_cursor neg_cond_code 1 i cs f) < nblocks (at_cursor neg_cond_code 1 i cs f)"
    for i cs f
    by (simp_all add: at_cursor_def init_state_def neg_cond_code_def mk_code_def)
  have "optimize_code int_host (Suc (Suc n)) neg_cond_code =
      optimize_blocks int_host (Suc (Suc n)) (Suc (Suc (Suc (Suc 0)))) (init_state neg_cond_code)"
    by (simp add: optimize_code_def neg_cond_code_def mk_code_def)
  also have "\<dots> = optimize_blocks int_host (Suc (Suc n)) (Suc (Suc (Suc 0)))
      (at_cursor neg_cond_code 0 2 [] False)"
    using nb neg_cond_block0 by (rule optimize_blocks_step)
  also have "\<dots> = optimize_blocks int_host (Suc (Suc n)) (Suc (Suc 0))
      (at_cursor neg_cond_code 1 2 [] False)"
    using nb0 neg_cond_block1 by (rule optimize_blocks_step)
  also have "\<dots> = optimize_blocks int_host (Suc (Suc n)) (Suc 0)
      (at_cursor neg_cond_code 2 1 [VInt 5] True)"
    using nb1 neg_cond_block2 by (rule optimize_blocks_step)
  finally show ?thesis .
qed

lemma neg_cond_never_returns: "optimize_code int_host fuel neg_cond_code = None"
proof (cases fuel)
  case 0
  then show ?thesis
    by (simp add: optimize_code_def neg_cond_code_def mk_code_def init_state_def Let_def
        optimize_block_def get_block_def eval_nat_numeral)
next
  case (Suc m)
  show ?thesis
  proof (cases m)
    case 0
    then show ?thesis
      using Suc
      by (simp add: optimize_code_def neg_cond_code_def mk_code_def init_state_def Let_def
        optimize_block_def get_block_def eval_nat_numeral py_get_def py_index_def
        optimize_instr_def ins_def)
  next
    case (Suc n)
    have l: "neg_loop ((at_cursor neg_cond_code 2 1 [VInt 5] True)
                \<lparr>block_index := 4, cur := 3, index := 0\<rparr>)"
      by (simp add: neg_loop_def at_cursor_def get_block_def init_state_def
          neg_cond_code_def mk_code_def)
    have "optimize_blocks int_host (Suc (Suc n)) (Suc 0) (at_cursor neg_cond_code 2 1 [VInt 5] True)
        = None"
      using neg_loop_never_ends [OF l, of "Suc (Suc n)"]
      by (simp add: optimize_block_def Let_def at_cursor_def init_state_def neg_cond_code_def
          mk_code_def del: scan.simps)
    then show ?thesis
      using reach_last_block [of n] \<open>fuel = Suc m\<close> Suc by simp
  qed
qed

subsection \<open>The guard\<close>

text \<open>
  C2, as the code has it. With the flag \<open>MIMICK_C_IMPL\<close> set, a code object whose
  line-number table contains 255, or whose code is longer than 32700 bytes, or whose
  (non-empty) code does not end with the byte of \<open>RETURN_VALUE\<close>, is returned as it is.
  With the flag as the module sets it, \<open>check_bypass_optim\<close> is False for every code
  object, so that no code object is returned without being optimized.
\<close>

theorem bypass_with_flag:
  assumes "255 \<in> set (co_lnotab co) \<or> length (co_code co) > 32700
           \<or> (co_code co \<noteq> [] \<and> last (co_code co) \<noteq> opmap_RETURN_VALUE)"
  shows "optimize_flag True h fuel disassemble co = Some (Inr (Unchanged co))
         \<and> check_bypass_optim co' = Inr False"
proof -
  have g: "py_get (co_code co) (int (length (co_code co)) - 1) = Inr (last (co_code co))"
    if "co_code co \<noteq> []"
    using that by (cases "co_code co" rule: rev_cases) (simp_all add: py_get_def py_index_def)
  have "check_bypass_optim_flag True co = Inr True"
    using assms g by (auto simp add: check_bypass_optim_flag_def Let_def)
  then show ?thesis
    by (simp add: optimize_flag_def check_bypass_optim_def check_bypass_optim_flag_def
        MIMICK_C_IMPL_def)
qed

theorem bypass_with_flag_witness:
  "optimize_flag True int_host 4 (disassemble_to raise_code) raise_co =
     Some (Inr (Unchanged raise_co))
   \<and> check_bypass_optim raise_co = Inr False"
proof -
  have "co_code raise_co \<noteq> [] \<and> last (co_code raise_co) \<noteq> opmap_RETURN_VALUE"
    by (simp add: raise_co_def opmap_RETURN_VALUE_def)
  then have "255 \<in> set (co_lnotab raise_co) \<or> length (co_code raise_co) > 32700
           \<or> (co_code raise_co \<noteq> [] \<and> last (co_code raise_co) \<noteq> opmap_RETURN_VALUE)"
    by blast
  from bypass_with_flag [OF this] show ?thesis .
qed

text \<open>The claim as stated fails: the code of \<open>raise 2 + 3\<close> does not end with a return,
  and \<open>optimize\<close> folds the addition.\<close>

theorem bypass_counterexample:
  "last (co_code raise_co) \<noteq> opmap_RETURN_VALUE
   \<and> rewritten (optimize int_host 4 (disassemble_to raise_code) raise_co) =
       Some (Inr (Some ([[ins LOAD_CONST (AInt 2), ins (OTHER ''RAISE_VARARGS'') (AInt 1)]],
                        [VInt 2, VInt 3, VInt 5])))"
  by code_simp

subsection \<open>A host operation that raises\<close>

text \<open>\<open>binop\<close> gives the fold up and changes nothing when the host operation raises.\<close>

lemma binop_host_error:
  "const_stack st = cs @ [l, r] \<Longrightarrow> op l r = Inl e \<Longrightarrow> binop op i st = Inr st"
  using py_get_last2 [of cs l r] py_get_last [of "cs @ [l]" r]
  by (simp add: binop_def)

text \<open>\<open>return 2 / 0\<close> is left as it is.\<close>

lemma div_zero_unchanged:
  "outcome (optimize_code int_host 4 div_zero_code) =
     Some (Inr (c_blocks div_zero_code, c_consts div_zero_code))"
  by code_simp

text \<open>
  C3 at \<open>return -'abc'\<close>: the negation of a string raises TypeError, \<open>unaryop\<close> handles
  IndexError only, and the exception leaves the handler and the whole pass.
\<close>

theorem unaryop_error_escapes:
  "outcome (optimize_code int_host 3 neg_str_code) = Some (Inl TypeError)"
  by code_simp

subsection \<open>Lookahead at the end of a block\<close>

text \<open>
  C4 at \<open>return x if c else (not a)\<close> and at \<open>return (a, b) if c else (d, e)\<close>: the
  handlers of \<open>UNARY_NOT\<close> and of \<open>BUILD_TUPLE\<close> read the instruction at the cursor without
  a check, and the pass ends with IndexError when either is the last instruction of
  its block.
\<close>

theorem lookahead_past_end_raises:
  "outcome (optimize_code int_host 4 cond_not_code) = Some (Inl IndexError)
   \<and> outcome (optimize_code int_host 4 cond_tuple_code) = Some (Inl IndexError)"
  by code_simp

subsection \<open>The constant stack across blocks\<close>

text \<open>The first step of the scan of the last block of \<open>neg_cond_code\<close> is the
  invocation of the handler of \<open>UNARY_NEGATIVE\<close> at the cursor 1, with the constant 5 on
  the constant stack.\<close>

lemma neg_cond_first_step:
  "optimize_block int_host (Suc n) 3
     ((at_cursor neg_cond_code 2 1 [VInt 5] True)\<lparr>block_index := 4\<rparr>) =
   (case optimize_instr int_host (ins UNARY_NEGATIVE ANone)
           (at_cursor neg_cond_code 3 1 [VInt 5] True) of
      Inl e \<Rightarrow> Some (Inl e)
    | Inr st' \<Rightarrow> scan int_host n st')"
  by (simp add: optimize_block_def at_cursor_def init_state_def neg_cond_code_def mk_code_def
      get_block_def py_get_def py_index_def)

text \<open>A prefix of a pass is a prefix of the pass: what remains to be done after it is
  the rest of the scan, and the rest of the blocks.\<close>

lemma scan_steps_prefix:
  "scan h (n + m) st =
     (case scan_steps h n st of Inl e \<Rightarrow> Some (Inl e) | Inr st' \<Rightarrow> scan h m st')"
proof (induction n arbitrary: st)
  case 0
  show ?case by simp
next
  case (Suc n)
  show ?case
  proof (cases "index st < int (length (get_block st))")
    case True
    then show ?thesis
      using Suc.IH by (simp split: sum.splits)
  next
    case False
    then show ?thesis
      by (simp add: scan_done)
  qed
qed

lemma optimize_blocks_done:
  "\<not> block_index st < nblocks st \<Longrightarrow> optimize_blocks h fuel k st = Some (Inr st)"
  by (cases k) simp_all

lemma first_blocks_prefix:
  "optimize_blocks h fuel (k + j) st =
     (case first_blocks h fuel k st of
        None \<Rightarrow> None
      | Some (Inl e) \<Rightarrow> Some (Inl e)
      | Some (Inr st') \<Rightarrow> optimize_blocks h fuel j st')"
proof (induction k arbitrary: st)
  case 0
  show ?case by simp
next
  case (Suc k)
  show ?case
  proof (cases "block_index st < nblocks st")
    case True
    then show ?thesis
      using Suc.IH by (simp add: Let_def split: option.splits sum.splits)
  next
    case False
    then show ?thesis
      by (simp add: optimize_blocks_done)
  qed
qed

text \<open>
  C10 at \<open>return -(a if c else 5)\<close>, run from the initial state. After the first three
  blocks, when the scan of the last block begins, the constant stack is not empty: it
  holds the 5 pushed in the block before, and the flag is set. After the first step of
  that scan, the handler of the negation, the first instruction of the last block, has
  consumed it: \<open>- 5\<close> is appended to the constants and is the tracked constant now, and
  the cursor is back at the negation.
\<close>

theorem const_stack_carried_over:
  "snapshot (pass_prefix int_host 2 3 0 neg_cond_code) =
     Some (Inr ([ins UNARY_NEGATIVE ANone, ins RETURN_VALUE ANone],
                [VInt 5], [VInt 5], True, 0))
   \<and> snapshot (pass_prefix int_host 2 3 1 neg_cond_code) =
     Some (Inr ([ins UNARY_NEGATIVE ANone, ins LOAD_CONST (AInt 1), ins RETURN_VALUE ANone],
                [VInt 5, VInt (- 5)], [VInt (- 5)], True, 0))"
  by code_simp

text \<open>
  C5 at \<open>return (a if c else 1) + 2\<close>, run from the initial state. After the first two
  blocks and one step of the scan of the last block, the handler of \<open>BINARY_ADD\<close> is
  about to be invoked with the two tracked constants 1 and 2 on the constant stack; the
  host addition gives 3, which passes the size guard. After that step the push of 2 and
  the addition are still in the block: the push of the new constant 3 has been inserted
  before the return, and the cursor is back at the start of the block. The pass has
  not returned after 20 steps.
\<close>

theorem binop_fold_inserts:
  "snapshot (pass_prefix int_host 4 2 1 add_cond_code) =
     Some (Inr ([ins LOAD_CONST (AInt 1), ins BINARY_ADD ANone, ins RETURN_VALUE ANone],
                [VInt 1, VInt 2], [VInt 1, VInt 2], True, 1))
   \<and> op_add int_host (VInt 1) (VInt 2) = Inr (VInt 3)
   \<and> check_result (VInt 3)
   \<and> snapshot (pass_prefix int_host 4 2 2 add_cond_code) =
     Some (Inr ([ins LOAD_CONST (AInt 1), ins BINARY_ADD ANone, ins LOAD_CONST (AInt 2),
                 ins RETURN_VALUE ANone],
                [VInt 1, VInt 2, VInt 3], [VInt 3], True, 0))
   \<and> outcome (optimize_code int_host 20 add_cond_code) = None"
  by code_simp

text \<open>
  C6 at the same input: that invocation of the handler leaves the block one instruction
  longer than it found it.
\<close>

theorem handler_grows_block:
  "length (get_block (at_cursor neg_cond_code 3 1 [VInt 5] True)) = 2
   \<and> map_sum id (length \<circ> fst)
        (handled (optimize_instr int_host (ins UNARY_NEGATIVE ANone)
                    (at_cursor neg_cond_code 3 1 [VInt 5] True))) = Inr 3"
  by code_simp

text \<open>
  C1 at the same input: whatever the fuel, the pass does not return, so there is no
  optimized program that could behave as the original does.
\<close>

theorem optimize_never_returns:
  "optimize int_host fuel (disassemble_to neg_cond_code) co = None"
  by (simp add: optimize_def optimize_flag_def check_bypass_optim_flag_def MIMICK_C_IMPL_def
      disassemble_to_def neg_cond_never_returns)

end
